theory Spec2Isabelle
  imports Complex_Main "HOL-Library.Sublist" "HOL-Library.Product_Lexorder" "HOL-Library.Char_ord"
    "HOL-Library.List_Lexorder" "HOL-Library.Multiset"
begin

section \<open>Python strings\<close>

text \<open>
  A Python \<open>str\<close> is modelled as a \<^typ>\<open>string\<close>. The character classes below are
  those of Python on ASCII code points: \<open>str.upper\<close> maps \<open>a..z\<close> to \<open>A..Z\<close>,
  \<open>str.isspace\<close> and the pattern \<open>\s\<close> hold for the code points 9 to 13, 28 to 31 and 32,
  \<open>\d\<close> for \<open>0..9\<close>, \<open>\w\<close> for letters, digits and the underscore.
\<close>

definition lowers :: string where
  "lowers = ''abcdefghijklmnopqrstuvwxyz''"

definition uppers :: string where
  "uppers = ''ABCDEFGHIJKLMNOPQRSTUVWXYZ''"

definition digits :: string where
  "digits = ''0123456789''"

definition upper_chr :: "char \<Rightarrow> char" where
  "upper_chr c = (case map_of (zip lowers uppers) c of Some u \<Rightarrow> u | None \<Rightarrow> c)"

definition upper :: "string \<Rightarrow> string" where
  "upper s = map upper_chr s"

definition is_space :: "char \<Rightarrow> bool" where
  "is_space c \<longleftrightarrow> c \<in> set [CHR 0x09, CHR 0x0A, CHR 0x0B, CHR 0x0C, CHR 0x0D,
                            CHR 0x1C, CHR 0x1D, CHR 0x1E, CHR 0x1F, CHR '' '']"

definition is_digit :: "char \<Rightarrow> bool" where
  "is_digit c \<longleftrightarrow> c \<in> set digits"

definition is_word :: "char \<Rightarrow> bool" where
  "is_word c \<longleftrightarrow> c \<in> set lowers \<or> c \<in> set uppers \<or> c \<in> set digits \<or> c = CHR ''_''"

text \<open>\<open>s.strip()\<close>: leading and trailing whitespace removed.\<close>

definition lstrip :: "string \<Rightarrow> string" where
  "lstrip s = dropWhile is_space s"

definition rstrip :: "string \<Rightarrow> string" where
  "rstrip s = rev (dropWhile is_space (rev s))"

definition strip :: "string \<Rightarrow> string" where
  "strip s = rstrip (lstrip s)"

text \<open>\<open>a in b\<close> on strings: \<open>a\<close> occurs in \<open>b\<close> as a contiguous substring.\<close>

fun str_in :: "string \<Rightarrow> string \<Rightarrow> bool" where
  "str_in a [] = (a = [])"
| "str_in a (c # cs) = (prefix a (c # cs) \<or> str_in a cs)"

definition startswith :: "string \<Rightarrow> string \<Rightarrow> bool" where
  "startswith s p = prefix p s"

text \<open>
  \<open>s.replace(old, new)\<close>: every non-overlapping occurrence of \<open>old\<close>, found from the left,
  is replaced. For the empty \<open>old\<close> Python inserts \<open>new\<close> before every character and at
  the end.
\<close>

function replace_ne :: "string \<Rightarrow> string \<Rightarrow> string \<Rightarrow> string" where
  "replace_ne old new s =
     (if old = [] \<or> s = [] then s
      else if prefix old s then new @ replace_ne old new (drop (length old) s)
      else hd s # replace_ne old new (tl s))"
  by pat_completeness auto
termination
  by (relation "measure (\<lambda>(old, new, s). length s)") auto

definition replace :: "string \<Rightarrow> string \<Rightarrow> string \<Rightarrow> string" where
  "replace s old new =
     (if old = [] then new @ concat (map (\<lambda>c. c # new) s) else replace_ne old new s)"

section \<open>Regular expressions\<close>

text \<open>
  The fragment of Python's \<open>re\<close> that the repository's patterns use, with the
  backtracking order of the library: \<open>run r st\<close> lists every way in which \<open>r\<close> matches
  at the state \<open>st\<close>, the preferred one first (alternatives left to right, repetitions
  greedy). A state is the text already passed (reversed), the text ahead and the groups
  captured so far.
\<close>

datatype regex =
    Eps
  | Chr "char \<Rightarrow> bool"
  | Seq regex regex
  | Alt regex regex
  | Star "char \<Rightarrow> bool"
  | Opt regex
  | Grp nat regex
  | Bol
  | Eol
  | WordB

record mstate =
  behind :: string
  ahead :: string
  groups :: "nat \<rightharpoonup> string"

fun greedy :: "(char \<Rightarrow> bool) \<Rightarrow> string \<Rightarrow> string \<Rightarrow> (nat \<rightharpoonup> string) \<Rightarrow> mstate list" where
  "greedy P b [] g = [\<lparr>behind = b, ahead = [], groups = g\<rparr>]"
| "greedy P b (c # cs) g =
     (if P c then greedy P (c # b) cs g else []) @ [\<lparr>behind = b, ahead = c # cs, groups = g\<rparr>]"

definition at_boundary :: "mstate \<Rightarrow> bool" where
  "at_boundary st \<longleftrightarrow>
     (case behind st of [] \<Rightarrow> False | p # _ \<Rightarrow> is_word p) \<noteq>
     (case ahead st of [] \<Rightarrow> False | n # _ \<Rightarrow> is_word n)"

primrec run :: "regex \<Rightarrow> mstate \<Rightarrow> mstate list" where
  "run Eps st = [st]"
| "run (Chr P) st =
     (case ahead st of
        [] \<Rightarrow> []
      | c # cs \<Rightarrow> if P c then [st\<lparr>behind := c # behind st, ahead := cs\<rparr>] else [])"
| "run (Seq r1 r2) st = concat (map (run r2) (run r1 st))"
| "run (Alt r1 r2) st = run r1 st @ run r2 st"
| "run (Star P) st = greedy P (behind st) (ahead st) (groups st)"
| "run (Opt r) st = run r st @ [st]"
| "run (Grp n r) st =
     map (\<lambda>st'. st'\<lparr>groups := (groups st')(n \<mapsto>
            take (length (ahead st) - length (ahead st')) (ahead st))\<rparr>) (run r st)"
| "run Bol st = (if behind st = [] then [st] else [])"
| "run Eol st = (if ahead st = [] \<or> ahead st = [CHR 0x0A] then [st] else [])"
| "run WordB st = (if at_boundary st then [st] else [])"

text \<open>
  A match object: where the match starts (the text before it, reversed), how many
  characters it spans, the text it was found in from the start of the match on, and
  its groups.
\<close>

record match =
  m_before :: string
  m_text :: string
  m_len :: nat
  m_groups :: "nat \<rightharpoonup> string"

definition match_at :: "regex \<Rightarrow> string \<Rightarrow> string \<Rightarrow> match option" where
  "match_at r b s =
     (case run r \<lparr>behind = b, ahead = s, groups = Map.empty\<rparr> of
        [] \<Rightarrow> None
      | st # _ \<Rightarrow> Some \<lparr>m_before = b, m_text = s, m_len = length s - length (ahead st),
                          m_groups = groups st\<rparr>)"

text \<open>\<open>pattern.search(s)\<close>: the match at the leftmost position that has one.\<close>

fun search_from :: "regex \<Rightarrow> string \<Rightarrow> string \<Rightarrow> match option" where
  "search_from r b [] = match_at r b []"
| "search_from r b (c # cs) =
     (case match_at r b (c # cs) of
        Some m \<Rightarrow> Some m
      | None \<Rightarrow> search_from r (c # b) cs)"

definition re_search :: "regex \<Rightarrow> string \<Rightarrow> match option" where
  "re_search r s = search_from r [] s"

definition group0 :: "match \<Rightarrow> string" where
  "group0 m = take (m_len m) (m_text m)"

text \<open>
  \<open>re.sub(pattern, repl, s)\<close> for a constant replacement. Every pattern that the source
  substitutes consumes at least one character, so an empty match is handled as no
  match at that position.
\<close>

function sub_from :: "regex \<Rightarrow> string \<Rightarrow> string \<Rightarrow> string \<Rightarrow> string" where
  "sub_from r repl b s =
     (case s of
        [] \<Rightarrow> []
      | c # cs \<Rightarrow>
          (case match_at r b s of
             None \<Rightarrow> c # sub_from r repl (c # b) cs
           | Some m \<Rightarrow>
               if m_len m = 0 then c # sub_from r repl (c # b) cs
               else repl @ sub_from r repl (rev (take (m_len m) s) @ b) (drop (m_len m) s)))"
  by pat_completeness auto
termination
  by (relation "measure (\<lambda>(r, repl, b, s). length s)") auto

definition re_sub :: "regex \<Rightarrow> string \<Rightarrow> string \<Rightarrow> string" where
  "re_sub r repl s = sub_from r repl [] s"

text \<open>A literal, and a literal under \<open>re.IGNORECASE\<close>.\<close>

definition lit :: "string \<Rightarrow> regex" where
  "lit w = foldr (\<lambda>c r. Seq (Chr (\<lambda>x. x = c)) r) w Eps"

definition lit_i :: "string \<Rightarrow> regex" where
  "lit_i w = foldr (\<lambda>c r. Seq (Chr (\<lambda>x. upper_chr x = upper_chr c)) r) w Eps"

fun alts :: "regex list \<Rightarrow> regex" where
  "alts [] = Chr (\<lambda>_. False)"
| "alts [r] = r"
| "alts (r # rs) = Alt r (alts rs)"

definition Plus :: "(char \<Rightarrow> bool) \<Rightarrow> regex" where
  "Plus P = Seq (Chr P) (Star P)"

section \<open>The text normalizer (\<open>scripts/smart_match.py\<close>)\<close>

text \<open>
  An argument of a function that tests \<open>isinstance(x, str)\<close>: a string, or any other
  object, which the source only ever turns into text with \<open>str(x)\<close>; such an object is
  given by that text.
\<close>

datatype py_arg = Str string | NonStr string

definition stop_words :: "string list" where
  "stop_words = [''MG'', ''COMPRIMIDOS'', ''CAPSULAS'', ''JARABE'', ''CM'', ''AL'', ''X'',
                 ''CAJA'', ''FRASCO'']"

text \<open>The pattern \<open>r'\b' + word + r'\b'\<close>.\<close>

definition word_re :: "string \<Rightarrow> regex" where
  "word_re w = Seq WordB (Seq (lit w) WordB)"

definition remove_stop_words :: "string \<Rightarrow> string" where
  "remove_stop_words t = fold (\<lambda>w t. re_sub (word_re w) [] t) stop_words t"

text \<open>The class \<open>[^A-Z0-9\s]\<close>.\<close>

definition special_chr :: "char \<Rightarrow> bool" where
  "special_chr c \<longleftrightarrow> \<not> (c \<in> set uppers \<or> c \<in> set digits \<or> is_space c)"

fun normalize_text :: "py_arg \<Rightarrow> string" where
  "normalize_text (NonStr _) = []"
| "normalize_text (Str t) =
     strip (re_sub (Plus is_space) '' ''
        (re_sub (Chr special_chr) [] (remove_stop_words (upper t))))"

section \<open>The field extractor (\<open>src/modules/drug_parser.py\<close>)\<close>

datatype py_error = AttributeError | TypeError | ValueError | KeyError | IndexError

definition dose_units :: "string list" where
  "dose_units = [''MG'', ''G'', ''GR'', ''MCG'', ''ML'', ''%'', ''UI'', ''GRS'']"

definition qty_units :: "string list" where
  "qty_units = [''COMP'', ''CAP'', ''SOBRE'', ''ML'', ''AMPOLLA'', ''FRASCO'', ''UNID'', ''UND'',
                ''DOSIS'', ''G'']"

text \<open>\<open>(\d+(?:[.,]\d+)?)\s*(MG|G|GR|MCG|ML|%|UI|GRS)\<close>, ignoring case.\<close>

definition REGEX_DOSIS :: regex where
  "REGEX_DOSIS =
     Seq (Grp 1 (Seq (Plus is_digit)
                     (Opt (Seq (Chr (\<lambda>c. c = CHR ''.'' \<or> c = CHR '','')) (Plus is_digit)))))
    (Seq (Star is_space)
         (Grp 2 (alts (map lit_i dose_units))))"

text \<open>
  \<open>(?:X\s*|ENV\s*|^|\s)(\d+)\s*(COMP|CAP|SOBRE|ML|AMPOLLA|FRASCO|UNID|UND|DOSIS|G)\<close>,
  ignoring case.
\<close>

definition REGEX_CANTIDAD :: regex where
  "REGEX_CANTIDAD =
     Seq (alts [Seq (lit_i ''X'') (Star is_space), Seq (lit_i ''ENV'') (Star is_space),
                Bol, Chr is_space])
    (Seq (Grp 1 (Plus is_digit))
    (Seq (Star is_space)
         (Grp 2 (alts (map lit_i qty_units)))))"

text \<open>\<open>(?:LAB\.|LABORATORIO|LAB)\s+(.*)$\<close>, ignoring case; the dot stops at a newline.\<close>

definition REGEX_LAB :: regex where
  "REGEX_LAB =
     Seq (alts [lit_i ''LAB.'', lit_i ''LABORATORIO'', lit_i ''LAB''])
    (Seq (Plus is_space)
    (Seq (Grp 1 (Star (\<lambda>c. c \<noteq> CHR 0x0A)))
         Eol))"

text \<open>\<open>\bX\d+\b\<close>.\<close>

definition REGEX_X :: regex where
  "REGEX_X = Seq WordB (Seq (lit ''X'') (Seq (Plus is_digit) WordB))"

text \<open>
  The dictionary that \<open>parse\<close> returns. The key \<open>brand_type\<close> is only present for a
  non-string argument.
\<close>

record parsed =
  original :: string
  clean_name :: string
  brand_type :: "string option"
  lab :: string
  dose_val :: "string option"
  dose_unit :: "string option"
  qty_val :: "string option"
  qty_unit :: "string option"

text \<open>
  Step 1. \<open>match_lab.group(1).strip()\<close> raises \<open>AttributeError\<close> when the group took no
  part in the match.
\<close>

definition extract_lab :: "string \<Rightarrow> parsed \<Rightarrow> py_error + string \<times> parsed" where
  "extract_lab text_bruto resultado =
     (case re_search REGEX_LAB text_bruto of
        None \<Rightarrow> Inr (text_bruto, resultado)
      | Some match_lab \<Rightarrow>
          (case m_groups match_lab 1 of
             None \<Rightarrow> Inl AttributeError
           | Some g \<Rightarrow> Inr (replace text_bruto (group0 match_lab) [],
                            resultado\<lparr>lab := strip g\<rparr>)))"

text \<open>Step 2.\<close>

definition extract_dose :: "string \<Rightarrow> parsed \<Rightarrow> string \<times> parsed" where
  "extract_dose text_bruto resultado =
     (case re_search REGEX_DOSIS text_bruto of
        None \<Rightarrow> (text_bruto, resultado)
      | Some match_dosis \<Rightarrow>
          (replace text_bruto (group0 match_dosis) '' '',
           resultado\<lparr>dose_val := m_groups match_dosis 1, dose_unit := m_groups match_dosis 2\<rparr>))"

text \<open>Step 3.\<close>

definition extract_qty :: "string \<Rightarrow> parsed \<Rightarrow> string \<times> parsed" where
  "extract_qty text_bruto resultado =
     (case re_search REGEX_CANTIDAD text_bruto of
        None \<Rightarrow> (text_bruto, resultado)
      | Some match_cant \<Rightarrow>
          (replace text_bruto (group0 match_cant) '' '',
           resultado\<lparr>qty_val := m_groups match_cant 1, qty_unit := m_groups match_cant 2\<rparr>))"

text \<open>Step 4, and the name that is left.\<close>

definition cleanup :: "string \<Rightarrow> string" where
  "cleanup text_bruto =
     strip (re_sub REGEX_X [] (strip (re_sub (Plus is_space) '' '' text_bruto)))"

definition parse :: "py_arg \<Rightarrow> py_error + parsed" where
  "parse product_name =
     (case product_name of
        NonStr s \<Rightarrow>
          Inr \<lparr>original = s, clean_name = s, brand_type = Some ''UNKNOWN'',
               lab = ''NO IDENTIFICADO'', dose_val = None, dose_unit = None,
               qty_val = None, qty_unit = None\<rparr>
      | Str name \<Rightarrow>
          (let text_bruto = strip (upper name);
               resultado = \<lparr>original = text_bruto, clean_name = text_bruto, brand_type = None,
                            lab = ''NO IDENTIFICADO'', dose_val = None, dose_unit = None,
                            qty_val = None, qty_unit = None\<rparr>
           in case extract_lab text_bruto resultado of
                Inl e \<Rightarrow> Inl e
              | Inr (text1, res1) \<Rightarrow>
                  (case extract_dose text1 res1 of (text2, res2) \<Rightarrow>
                   case extract_qty text2 res2 of (text3, res3) \<Rightarrow>
                     Inr (res3\<lparr>clean_name := cleanup text3\<rparr>))))"

section \<open>The data manager (\<open>src/modules/data_manager.py\<close>)\<close>

text \<open>
  The registry of \<open>_load_mock_isp_db\<close>: a dictionary, in insertion order, from a key
  (ingredient and dose) to its generics, its brands and its active ingredient.
\<close>

record isp_entry =
  generics :: "string list"
  brands :: "string list"
  active_ingredient :: string

type_synonym isp_db = "(string \<times> isp_entry) list"

definition load_mock_isp_db :: isp_db where
  "load_mock_isp_db =
     [(''ACICLOVIR 200 MG'',
         \<lparr>generics = [''ACICLOVIR 200 MG''], brands = [''ZOVIRAX 200 MG''],
          active_ingredient = ''ACICLOVIR''\<rparr>),
      (''ACIDO ACETILSALICILICO 100 MG'',
         \<lparr>generics = [''ACIDO ACETILSALICILICO 100 MG''],
          brands = [''CARDIOASPIRINA 100'', ''ASPIRINA 100''],
          active_ingredient = ''ACIDO ACETILSALICILICO''\<rparr>),
      (''PARACETAMOL 500 MG'',
         \<lparr>generics = [''PARACETAMOL 500 MG''], brands = [''PANADOL'', ''KITADOL''],
          active_ingredient = ''PARACETAMOL''\<rparr>),
      (''IBUPROFENO 400 MG'',
         \<lparr>generics = [''IBUPROFENO 400 MG''], brands = [''IBUPIRAC'', ''ACTRON''],
          active_ingredient = ''IBUPROFENO''\<rparr>),
      (''LOSARTAN 50 MG'',
         \<lparr>generics = [''LOSARTAN 50 MG'', ''LOSARTAN POTASICO 50 MG''], brands = [''COZAAR''],
          active_ingredient = ''LOSARTAN''\<rparr>),
      (''DIONOGEST 2 MG'',
         \<lparr>generics = [''DIONOGEST''], brands = [''ACOTOL''],
          active_ingredient = ''DIONOGEST + ETINILESTRADIOL''\<rparr>)]"

text \<open>
  The optional library \<open>rapidfuzz\<close>: when its import succeeds, \<open>FUZZY_AVAILABLE\<close> is true
  and the two scorers below are used; scores are numbers from 0 to 100.
  \<open>process.extractOne\<close> returns the choice with the highest score, the first one among
  equals, and nothing for an empty list of choices.
\<close>

record fuzz =
  token_set_ratio :: "string \<Rightarrow> string \<Rightarrow> real"
  ratio :: "string \<Rightarrow> string \<Rightarrow> real"

fun extractOne :: "(string \<Rightarrow> string \<Rightarrow> real) \<Rightarrow> string \<Rightarrow> string list \<Rightarrow> (string \<times> real) option" where
  "extractOne scorer query [] = None"
| "extractOne scorer query (c # cs) =
     (case extractOne scorer query cs of
        None \<Rightarrow> Some (c, scorer query c)
      | Some (c', s') \<Rightarrow> if s' > scorer query c then Some (c', s') else Some (c, scorer query c))"

text \<open>
  Python floats are kept abstract: a type \<open>'f\<close> with the operations that the source
  applies to it. \<open>float_of_str s\<close> is \<open>float(s)\<close>, with \<open>None\<close> for \<open>ValueError\<close>.
\<close>

record 'f float_ops =
  float_of_str :: "string \<Rightarrow> 'f option"
  fdiv :: "'f \<Rightarrow> 'f \<Rightarrow> 'f"
  fround :: "'f \<Rightarrow> nat \<Rightarrow> 'f"
  fpositive :: "'f \<Rightarrow> bool"

datatype 'f pynum = PyInt int | PyFloat 'f

text \<open>
  A row of the inventory: the columns of the CSV file that the source reads, and the
  columns that \<open>DrugParser.process_dataframe\<close> adds. The type \<open>'p\<close> is what the price
  column holds: any cell for the data manager, which only turns it into text with
  \<open>str\<close>, and a whole number for the search engine, which sorts by it and subtracts.
\<close>

record 'p inv_row = parsed +
  Producto :: py_arg
  Stock :: int
  Precio_Venta :: 'p

record ('p, 'f) enriched = "'p inv_row" +
  Active_Ingredient :: string
  Is_Bioequivalent :: bool
  Is_Generic :: bool
  Calculated_PPUM :: "'f pynum"

definition py_str :: "py_arg \<Rightarrow> string" where
  "py_str x = (case x of Str s \<Rightarrow> s | NonStr s \<Rightarrow> s)"

text \<open>The truth value of an optional string: \<open>None\<close> and the empty string are false.\<close>

definition truthy :: "string option \<Rightarrow> bool" where
  "truthy x = (case x of None \<Rightarrow> False | Some s \<Rightarrow> s \<noteq> [])"

text \<open>Fallback 1: the first key that occurs in the name.\<close>

definition key_lookup :: "isp_db \<Rightarrow> string \<Rightarrow> string option" where
  "key_lookup db name = find (\<lambda>key. str_in key name) (map fst db)"

text \<open>
  Fallback 2, the reverse lookup: the entries in order; an entry one of whose brands
  occurs in the name sets \<open>best_match\<close> to its key, and the loop stops as soon as
  \<open>best_match\<close> is true.
\<close>

fun brand_lookup :: "isp_db \<Rightarrow> string \<Rightarrow> string option \<Rightarrow> string option" where
  "brand_lookup [] name best_match = best_match"
| "brand_lookup ((key, data) # rest) name best_match =
     (let best_match' =
            (if list_ex (\<lambda>brand. str_in brand name) (brands data) then Some key else best_match)
      in if truthy best_match' then best_match' else brand_lookup rest name best_match')"

definition find_best_match :: "fuzz option \<Rightarrow> isp_db \<Rightarrow> string \<Rightarrow> string option" where
  "find_best_match fuzzy db name =
     (case fuzzy of
        Some fz \<Rightarrow>
          (case extractOne (token_set_ratio fz) name (map fst db) of
             None \<Rightarrow> None
           | Some (key, score) \<Rightarrow> if score > 85 then Some key else None)
      | None \<Rightarrow>
          (let best_match = key_lookup db name
           in if \<not> truthy best_match then brand_lookup db name best_match else best_match))"

text \<open>Step 3: each brand of the entry that occurs in the name sets the two flags.\<close>

fun brand_flags :: "string list \<Rightarrow> string \<Rightarrow> bool \<times> bool \<Rightarrow> bool \<times> bool" where
  "brand_flags [] name (is_bioequivalent, is_generic) = (is_bioequivalent, is_generic)"
| "brand_flags (brand # rest) name (is_bioequivalent, is_generic) =
     (if str_in brand name then brand_flags rest name (True, False)
      else brand_flags rest name (is_bioequivalent, is_generic))"

text \<open>
  The part of \<open>_enrich_compliance\<close> that computes the active ingredient and the two
  flags, in the order (ingredient, bioequivalent, generic). A key that the registry
  does not hold raises \<open>KeyError\<close>. The methods of the source keep their names, without
  the leading underscore.
\<close>

definition classify ::
  "fuzz option \<Rightarrow> isp_db \<Rightarrow> string \<Rightarrow> py_error + string \<times> bool \<times> bool" where
  "classify fuzzy db name =
     (case find_best_match fuzzy db name of
        None \<Rightarrow> Inr (''DESCONOCIDO'', False, False)
      | Some best_match \<Rightarrow>
          if best_match = [] then Inr (''DESCONOCIDO'', False, False)
          else
            (case map_of db best_match of
               None \<Rightarrow> Inl KeyError
             | Some data \<Rightarrow>
                 (let found = active_ingredient data;
                      flags =
                        (if str_in found name \<and> \<not> str_in ''COMPUESTO'' name then
                           (let r = (case fuzzy of
                                       Some fz \<Rightarrow> ratio fz (strip (replace name ''MG'' [])) found
                                     | None \<Rightarrow> if startswith name found then 100 else 0)
                            in if r > 60 then (True, True) else (False, False))
                         else (False, False))
                  in Inr (found, brand_flags (brands data) name flags))))"

text \<open>
  \<open>_calculate_ppum\<close>. The body of the \<open>try\<close> either returns a value, falls through, or
  raises; \<open>ValueError\<close> and \<open>TypeError\<close> are caught.
\<close>

definition ppum_try :: "'f float_ops \<Rightarrow> py_arg inv_row \<Rightarrow> py_error + 'f option" where
  "ppum_try F row =
     (case float_of_str F (replace (py_str (Precio_Venta row)) '','' ''.'') of
        None \<Rightarrow> Inl ValueError
      | Some price \<Rightarrow>
          (case qty_val row of
             None \<Rightarrow> Inl TypeError
           | Some q \<Rightarrow>
               (case float_of_str F q of
                  None \<Rightarrow> Inl ValueError
                | Some qty \<Rightarrow>
                    if fpositive F qty then Inr (Some (fround F (fdiv F price qty) 2))
                    else Inr None)))"

definition calculate_ppum :: "'f float_ops \<Rightarrow> py_arg inv_row \<Rightarrow> py_error + 'f pynum" where
  "calculate_ppum F row =
     (case ppum_try F row of
        Inr (Some v) \<Rightarrow> Inr (PyFloat v)
      | Inr None \<Rightarrow> Inr (PyInt 0)
      | Inl e \<Rightarrow> if e = ValueError \<or> e = TypeError then Inr (PyInt 0) else Inl e)"

text \<open>The name that is classified: the clean name, or else the product text.\<close>

definition product_name :: "'p inv_row \<Rightarrow> string" where
  "product_name row =
     (let clean_name = upper (clean_name row)
      in if clean_name = [] then upper (py_str (Producto row)) else clean_name)"

definition enrich_compliance ::
  "fuzz option \<Rightarrow> 'f float_ops \<Rightarrow> isp_db \<Rightarrow> py_arg inv_row \<Rightarrow> py_error + (py_arg, 'f) enriched" where
  "enrich_compliance fuzzy F db row =
     (case classify fuzzy db (product_name row) of
        Inl e \<Rightarrow> Inl e
      | Inr (found, is_bioequivalent, is_generic) \<Rightarrow>
          (case calculate_ppum F row of
             Inl e \<Rightarrow> Inl e
           | Inr ppum \<Rightarrow>
               Inr (inv_row.extend row
                      (enriched.fields found is_bioequivalent is_generic ppum))))"

section \<open>The scorers of \<open>rapidfuzz\<close>\<close>

text \<open>
  The two scorers as the library documents them, on whole characters: \<open>fuzz.ratio\<close> is
  the normalized Indel similarity (insertions and deletions only, so twice the longest
  common subsequence over the sum of the lengths), and \<open>fuzz.token_set_ratio\<close> compares
  the sorted words that the two texts do not share, together with the words they share.
\<close>

text \<open>
  The length of a longest common subsequence, row by row: \<open>next_row x b prev left\<close> is
  the row of the table for one more character \<open>x\<close> of the first text, from the row
  \<open>prev\<close> before it.
\<close>

fun next_row :: "char \<Rightarrow> string \<Rightarrow> nat list \<Rightarrow> nat \<Rightarrow> nat list" where
  "next_row x (y # ys) (diag # up # prev) left =
     (let v = (if x = y then Suc diag else max up left) in v # next_row x ys (up # prev) v)"
| "next_row x ys prev left = []"

definition lcs :: "string \<Rightarrow> string \<Rightarrow> nat" where
  "lcs a b = last (foldl (\<lambda>row x. 0 # next_row x b row 0) (replicate (Suc (length b)) 0) a)"

definition indel_distance :: "string \<Rightarrow> string \<Rightarrow> nat" where
  "indel_distance a b = length a + length b - 2 * lcs a b"

definition norm_distance :: "nat \<Rightarrow> nat \<Rightarrow> real" where
  "norm_distance d lensum =
     (if lensum = 0 then 100 else 100 - 100 * real d / real lensum)"

definition fuzz_ratio :: "string \<Rightarrow> string \<Rightarrow> real" where
  "fuzz_ratio a b = norm_distance (indel_distance a b) (length a + length b)"

text \<open>\<open>s.split()\<close>: the words of a text, separated by whitespace.\<close>

function split_ws :: "string \<Rightarrow> string list" where
  "split_ws s =
     (let t = dropWhile is_space s
      in if t = [] then []
         else takeWhile (\<lambda>c. \<not> is_space c) t # split_ws (dropWhile (\<lambda>c. \<not> is_space c) t))"
  by pat_completeness auto
termination
proof (relation "measure length")
  fix s t :: string
  assume t: "t = dropWhile is_space s" and ne: "t \<noteq> []"
  have "\<not> is_space (hd t)" using t ne by (metis hd_dropWhile)
  then have "dropWhile (\<lambda>c. \<not> is_space c) t = dropWhile (\<lambda>c. \<not> is_space c) (tl t)"
    using ne by (cases t) auto
  moreover have "length (dropWhile (\<lambda>c. \<not> is_space c) (tl t)) \<le> length (tl t)"
    by (rule length_dropWhile_le)
  ultimately have "length (dropWhile (\<lambda>c. \<not> is_space c) t) \<le> length (tl t)"
    by simp
  also have "\<dots> < length t" using ne by (cases t) auto
  also have "\<dots> \<le> length s" using t by (simp add: length_dropWhile_le)
  finally show "(dropWhile (\<lambda>c. \<not> is_space c) t, s) \<in> measure length" by simp
qed simp

definition join_sp :: "string list \<Rightarrow> string" where
  "join_sp ws = (case ws of [] \<Rightarrow> [] | w # rest \<Rightarrow> foldl (\<lambda>acc x. acc @ '' '' @ x) w rest)"

definition fuzz_token_set_ratio :: "string \<Rightarrow> string \<Rightarrow> real" where
  "fuzz_token_set_ratio s1 s2 =
     (let tokens_a = remdups (split_ws s1);
          tokens_b = remdups (split_ws s2)
      in if tokens_a = [] \<or> tokens_b = [] then 0
         else
           (let intersect = filter (\<lambda>w. w \<in> set tokens_a) tokens_b;
                diff_ab = filter (\<lambda>w. w \<notin> set tokens_b) tokens_a;
                diff_ba = filter (\<lambda>w. w \<notin> set tokens_a) tokens_b
            in if intersect \<noteq> [] \<and> (diff_ab = [] \<or> diff_ba = []) then 100
               else
                 (let diff_ab_joined = join_sp (sort diff_ab);
                      diff_ba_joined = join_sp (sort diff_ba);
                      ab_len = length diff_ab_joined;
                      ba_len = length diff_ba_joined;
                      sect_len = length (join_sp intersect);
                      sep = (if sect_len \<noteq> 0 then 1 else 0);
                      sect_ab_len = sect_len + sep + ab_len;
                      sect_ba_len = sect_len + sep + ba_len;
                      result = norm_distance (indel_distance diff_ab_joined diff_ba_joined)
                                 (sect_ab_len + sect_ba_len)
                  in if sect_len = 0 then result
                     else max result
                            (max (norm_distance (sep + ab_len) (sect_len + sect_ab_len))
                                 (norm_distance (sep + ba_len) (sect_len + sect_ba_len))))))"

definition rapidfuzz :: fuzz where
  "rapidfuzz = \<lparr>token_set_ratio = fuzz_token_set_ratio, ratio = fuzz_ratio\<rparr>"

section \<open>The search engine (\<open>motor_busqueda.py\<close>)\<close>




record ('p, 'f) ranked = "('p, 'f) enriched" +
  Rank :: nat

text \<open>Step 4 of \<open>buscar\<close>: the rank of a row, and the table with its new column.\<close>

definition calculate_rank :: "string \<Rightarrow> (int, 'f) enriched \<Rightarrow> nat" where
  "calculate_rank query row =
     (let is_requested = str_in query (clean_name row)
      in if Is_Generic row \<and> Is_Bioequivalent row then 1
         else if Is_Bioequivalent row then 2
         else if is_requested then 3
         else 4)"

definition add_rank :: "string \<Rightarrow> (int, 'f) enriched \<Rightarrow> (int, 'f) ranked" where
  "add_rank query row = enriched.extend row (ranked.fields (calculate_rank query row))"

text \<open>\<open>sort_values(by=['Rank', 'Precio Venta'])\<close>: a stable sort on the pair.\<close>

definition rank_and_sort :: "string \<Rightarrow> (int, 'f) enriched list \<Rightarrow> (int, 'f) ranked list" where
  "rank_and_sort query alternatives =
     sort_key (\<lambda>r. (Rank r, Precio_Venta r)) (map (add_rank query) alternatives)"








section \<open>The search endpoint (\<open>src/api/main.py\<close>)\<close>



section \<open>Strings and patterns\<close>

declare sub_from.simps [simp del] replace_ne.simps [simp del]

lemma str_in_sublist: "str_in a b \<longleftrightarrow> sublist a b"
  by (induction b) (auto simp: sublist_Cons_right)

lemma greedy_hd:
  "\<exists>xs. greedy P b s g =
     \<lparr>behind = rev (takeWhile P s) @ b, ahead = dropWhile P s, groups = g\<rparr> # xs"
proof (induction s arbitrary: b)
  case Nil
  then show ?case by simp
next
  case (Cons c cs)
  show ?case
  proof (cases "P c")
    case True
    from Cons[of "c # b"] obtain xs where
      "greedy P (c # b) cs g =
         \<lparr>behind = rev (takeWhile P cs) @ c # b, ahead = dropWhile P cs, groups = g\<rparr> # xs"
      by blast
    with True show ?thesis by simp
  next
    case False
    then show ?thesis by simp
  qed
qed

lemma match_at_Chr:
  "match_at (Chr P) b s =
     (case s of [] \<Rightarrow> None
      | c # cs \<Rightarrow> if P c then Some \<lparr>m_before = b, m_text = s, m_len = 1, m_groups = Map.empty\<rparr>
                 else None)"
  by (simp add: match_at_def split: list.splits)

lemma match_at_Plus:
  "match_at (Plus P) b s =
     (case s of [] \<Rightarrow> None
      | c # cs \<Rightarrow> if P c then Some \<lparr>m_before = b, m_text = s,
                                      m_len = Suc (length (takeWhile P cs)),
                                      m_groups = Map.empty\<rparr>
                 else None)"
proof (cases s)
  case Nil
  then show ?thesis by (simp add: match_at_def Plus_def)
next
  case (Cons c cs)
  obtain xs where "greedy P (c # b) cs Map.empty =
     \<lparr>behind = rev (takeWhile P cs) @ c # b, ahead = dropWhile P cs, groups = Map.empty\<rparr> # xs"
    using greedy_hd by blast
  moreover have "length cs - length (dropWhile P cs) = length (takeWhile P cs)"
    by (metis add_diff_cancel_right' length_append takeWhile_dropWhile_id)
  moreover have "length (dropWhile P cs) \<le> length cs"
    by (simp add: length_dropWhile_le)
  ultimately show ?thesis using Cons
    by (simp add: match_at_def Plus_def Suc_diff_le)
qed

lemma sub_from_Nil: "sub_from r repl b [] = []"
  by (subst sub_from.simps) simp

lemma sub_from_Chr: "sub_from (Chr P) [] b s = filter (\<lambda>c. \<not> P c) s"
proof (induction s arbitrary: b)
  case Nil
  then show ?case by (simp add: sub_from_Nil)
next
  case (Cons c cs)
  show ?case
    by (subst sub_from.simps) (simp add: match_at_Chr Cons)
qed

lemma sub_from_Plus_Cons:
  "sub_from (Plus P) repl b (c # cs) =
     (if P c then repl @ sub_from (Plus P) repl (rev (c # takeWhile P cs) @ b) (dropWhile P cs)
      else c # sub_from (Plus P) repl (c # b) cs)"
proof -
  have "drop (length (takeWhile P cs)) cs = dropWhile P cs"
    by (metis append_eq_conv_conj takeWhile_dropWhile_id)
  moreover have "take (length (takeWhile P cs)) cs = takeWhile P cs"
    by (metis append_eq_conv_conj takeWhile_dropWhile_id)
  ultimately show ?thesis
    by (subst sub_from.simps) (simp add: match_at_Plus)
qed

text \<open>What collapsing the whitespace runs of a text yields.\<close>

lemma sub_ws_shape:
  "set (sub_from (Plus is_space) '' '' b s) \<subseteq> {c \<in> set s. \<not> is_space c} \<union> {CHR '' ''} \<and>
   \<not> sublist ''  '' (sub_from (Plus is_space) '' '' b s) \<and>
   (prefix '' '' (sub_from (Plus is_space) '' '' b s) \<longrightarrow> (\<exists>c cs. s = c # cs \<and> is_space c))"
proof (induction s arbitrary: b rule: length_induct)
  case (1 s)
  show ?case
  proof (cases s)
    case Nil
    then show ?thesis by (simp add: sub_from_Nil)
  next
    case (Cons c cs)
    show ?thesis
    proof (cases "is_space c")
      case True
      let ?b' = "rev (c # takeWhile is_space cs) @ b"
      let ?r = "sub_from (Plus is_space) '' '' ?b' (dropWhile is_space cs)"
      have len: "length (dropWhile is_space cs) < length s"
        using Cons by (simp add: length_dropWhile_le le_imp_less_Suc)
      from 1 len have ih:
        "set ?r \<subseteq> {c \<in> set (dropWhile is_space cs). \<not> is_space c} \<union> {CHR '' ''} \<and>
         \<not> sublist ''  '' ?r \<and>
         (prefix '' '' ?r \<longrightarrow> (\<exists>c' cs'. dropWhile is_space cs = c' # cs' \<and> is_space c'))"
        by blast
      have nohead: "\<not> prefix '' '' ?r"
      proof
        assume "prefix '' '' ?r"
        with ih obtain c' cs' where "dropWhile is_space cs = c' # cs'" "is_space c'" by blast
        then show False by (metis hd_dropWhile list.distinct(1) list.sel(1))
      qed
      have eq: "sub_from (Plus is_space) '' '' b s = CHR '' '' # ?r"
        using Cons True by (simp add: sub_from_Plus_Cons)
      have "set (dropWhile is_space cs) \<subseteq> set cs" by (simp add: set_dropWhileD subsetI)
      with ih have s1: "set (CHR '' '' # ?r) \<subseteq> {c \<in> set s. \<not> is_space c} \<union> {CHR '' ''}"
        using Cons by auto
      have s2: "\<not> sublist ''  '' (CHR '' '' # ?r)"
        using ih nohead by (auto simp: sublist_Cons_right prefix_Cons)
      show ?thesis using eq s1 s2 Cons True by simp
    next
      case False
      let ?r = "sub_from (Plus is_space) '' '' (c # b) cs"
      from 1 Cons have ih:
        "set ?r \<subseteq> {c \<in> set cs. \<not> is_space c} \<union> {CHR '' ''} \<and> \<not> sublist ''  '' ?r"
        by simp
      have eq: "sub_from (Plus is_space) '' '' b s = c # ?r"
        using Cons False by (simp add: sub_from_Plus_Cons)
      have nsp: "c \<noteq> CHR '' ''" using False by (auto simp: is_space_def)
      have s2: "\<not> sublist ''  '' (c # ?r)"
        using ih nsp by (auto simp: sublist_Cons_right prefix_Cons)
      show ?thesis using eq ih s2 Cons False nsp by (auto simp: prefix_Cons)
    qed
  qed
qed


lemma space_is_space: "is_space (CHR '' '')"
  by (simp add: is_space_def)

lemma rstrip_prefix: "prefix (rstrip s) s"
proof -
  have "suffix (dropWhile is_space (rev s)) (rev s)" by (rule suffix_dropWhile)
  then show ?thesis unfolding rstrip_def by (simp add: suffix_to_prefix)
qed

lemma lstrip_suffix: "suffix (lstrip s) s"
  unfolding lstrip_def by (rule suffix_dropWhile)

lemma sublist_strip: "sublist (strip s) s"
  unfolding strip_def
  using rstrip_prefix[of "lstrip s"] lstrip_suffix[of s]
  by (meson prefix_imp_sublist suffix_imp_sublist sublist_order.order_trans)

lemma set_strip: "set (strip s) \<subseteq> set s"
  using sublist_strip by (meson set_mono_sublist)

lemma lstrip_head: "lstrip s = c # cs \<Longrightarrow> \<not> is_space c"
  unfolding lstrip_def by (metis hd_dropWhile list.distinct(1) list.sel(1))

lemma rstrip_last: "rstrip s = cs @ [c] \<Longrightarrow> \<not> is_space c"
proof -
  assume "rstrip s = cs @ [c]"
  then have "dropWhile is_space (rev s) = c # rev cs"
    unfolding rstrip_def by (metis rev.simps(2) rev_rev_ident rev_swap)
  then show ?thesis by (metis hd_dropWhile list.distinct(1) list.sel(1))
qed

lemma strip_no_lead: "strip s = c # cs \<Longrightarrow> \<not> is_space c"
proof -
  assume a: "strip s = c # cs"
  then have "prefix (c # cs) (lstrip s)" unfolding strip_def using rstrip_prefix by metis
  then obtain ds where "lstrip s = c # ds" by (auto simp: prefix_def)
  then show ?thesis by (rule lstrip_head)
qed

lemma strip_no_trail: "strip s = cs @ [c] \<Longrightarrow> \<not> is_space c"
  unfolding strip_def by (rule rstrip_last)

lemma strip_ends:
  "\<not> prefix '' '' (strip s) \<and> \<not> suffix '' '' (strip s)"
proof
  show "\<not> prefix '' '' (strip s)"
    using strip_no_lead space_is_space by (auto simp: prefix_def)
  show "\<not> suffix '' '' (strip s)"
    using strip_no_trail space_is_space by (auto simp: suffix_def)
qed

lemma normalize_chars:
  "set (normalize_text (Str t)) \<subseteq> set uppers \<union> set digits \<union> {CHR '' ''}"
proof -
  let ?v = "re_sub (Chr special_chr) [] (remove_stop_words (upper t))"
  have v: "set ?v \<subseteq> {c. c \<in> set uppers \<or> c \<in> set digits \<or> is_space c}"
    by (auto simp: re_sub_def sub_from_Chr special_chr_def)
  have "set (re_sub (Plus is_space) '' '' ?v) \<subseteq> {c \<in> set ?v. \<not> is_space c} \<union> {CHR '' ''}"
    unfolding re_sub_def using sub_ws_shape by blast
  with v have "set (re_sub (Plus is_space) '' '' ?v) \<subseteq> set uppers \<union> set digits \<union> {CHR '' ''}"
    by blast
  then show ?thesis using set_strip by fastforce
qed

lemma normalize_no_double: "\<not> str_in ''  '' (normalize_text (Str t))"
proof -
  let ?w = "re_sub (Plus is_space) '' '' (re_sub (Chr special_chr) [] (remove_stop_words (upper t)))"
  have "\<not> sublist ''  '' ?w" unfolding re_sub_def using sub_ws_shape by blast
  moreover have "sublist (strip ?w) ?w" by (rule sublist_strip)
  ultimately have "\<not> sublist ''  '' (strip ?w)"
    by (meson sublist_order.order_trans)
  then show ?thesis by (simp add: str_in_sublist)
qed


lemma upper_chr_fixed:
  "c \<in> set uppers \<union> set digits \<union> {CHR '' ''} \<Longrightarrow> upper_chr c = c"
  unfolding upper_chr_def uppers_def digits_def lowers_def
  by (elim UnE; simp; elim disjE; simp)

lemma upper_fixed: "\<forall>c \<in> set s. upper_chr c = c \<Longrightarrow> upper s = s"
  by (simp add: upper_def map_idI)

lemma search_none_sub:
  "search_from r b s = None \<Longrightarrow> sub_from r repl b s = s"
proof (induction s arbitrary: b)
  case Nil
  then show ?case by (simp add: sub_from_Nil)
next
  case (Cons c cs)
  then show ?case
    by (subst sub_from.simps) (auto split: option.splits)
qed

lemma re_search_none_sub: "re_search r s = None \<Longrightarrow> re_sub r repl s = s"
  by (simp add: re_search_def re_sub_def search_none_sub)

lemma sub_ws_fixed:
  "\<forall>c \<in> set s. is_space c \<longrightarrow> c = CHR '' '' \<Longrightarrow> \<not> sublist ''  '' s \<Longrightarrow>
     sub_from (Plus is_space) '' '' b s = s"
proof (induction s arbitrary: b)
  case Nil
  then show ?case by (simp add: sub_from_Nil)
next
  case (Cons c cs)
  have nd: "\<not> sublist ''  '' cs" using Cons.prems(2) by (simp add: sublist_Cons_right)
  have ih: "\<And>b. sub_from (Plus is_space) '' '' b cs = cs"
    using Cons.IH Cons.prems(1) nd by simp
  show ?case
  proof (cases "is_space c")
    case True
    then have c: "c = CHR '' ''" using Cons.prems(1) by simp
    have "dropWhile is_space cs = cs"
    proof (cases cs)
      case Nil
      then show ?thesis by simp
    next
      case (Cons d ds)
      have "d \<noteq> CHR '' ''"
        using Cons.prems(2) c Cons by (auto simp: sublist_Cons_right)
      then have "\<not> is_space d" using Cons.prems(1) Cons by auto
      then show ?thesis using Cons by simp
    qed
    then show ?thesis using True c ih by (simp add: sub_from_Plus_Cons)
  next
    case False
    then show ?thesis using ih by (simp add: sub_from_Plus_Cons)
  qed
qed

lemma strip_fixed:
  "\<not> prefix '' '' s \<Longrightarrow> \<not> suffix '' '' s \<Longrightarrow> \<forall>c \<in> set s. is_space c \<longrightarrow> c = CHR '' '' \<Longrightarrow>
     strip s = s"
proof -
  assume p: "\<not> prefix '' '' s" and q: "\<not> suffix '' '' s"
    and w: "\<forall>c \<in> set s. is_space c \<longrightarrow> c = CHR '' ''"
  have l: "lstrip s = s"
  proof (cases s)
    case Nil
    then show ?thesis by (simp add: lstrip_def)
  next
    case (Cons c cs)
    then have "c \<noteq> CHR '' ''" using p by (auto simp: prefix_def)
    then have "\<not> is_space c" using w Cons by auto
    then show ?thesis using Cons by (simp add: lstrip_def)
  qed
  have r: "rstrip s = s"
  proof (cases s rule: rev_cases)
    case Nil
    then show ?thesis by (simp add: rstrip_def)
  next
    case (snoc cs c)
    then have "c \<noteq> CHR '' ''" using q by (auto simp: suffix_def)
    then have "\<not> is_space c" using w snoc by auto
    then show ?thesis using snoc by (simp add: rstrip_def)
  qed
  show ?thesis by (simp add: strip_def l r)
qed

lemma fold_stop_fixed:
  "\<forall>w \<in> set ws. re_search (word_re w) y = None \<Longrightarrow>
     fold (\<lambda>w t. re_sub (word_re w) [] t) ws y = y"
  by (induction ws) (simp_all add: re_search_none_sub)

lemma normalize_empty: "normalize_text (Str []) = []"
  by code_simp

lemma normalize_shape:
  "set (normalize_text x) \<subseteq> set uppers \<union> set digits \<union> {CHR '' ''} \<and>
   \<not> prefix '' '' (normalize_text x) \<and> \<not> suffix '' '' (normalize_text x) \<and>
   \<not> str_in ''  '' (normalize_text x)"
proof (cases x)
  case (Str t)
  then show ?thesis
    using normalize_chars[of t] normalize_no_double[of t] strip_ends by simp
next
  case (NonStr s)
  then show ?thesis by simp
qed

lemma allowed_chr_space:
  "c \<in> set uppers \<union> set digits \<union> {CHR '' ''} \<Longrightarrow> is_space c \<Longrightarrow> c = CHR '' ''"
  unfolding uppers_def digits_def is_space_def
  by (elim UnE; simp; elim disjE; simp)

lemma allowed_chr_not_special:
  "c \<in> set uppers \<union> set digits \<union> {CHR '' ''} \<Longrightarrow> \<not> special_chr c"
  unfolding special_chr_def using space_is_space by blast













lemma extract_dose_clean: "extract_dose t r = (t', r') \<Longrightarrow> clean_name r' = clean_name r"
  by (auto simp: extract_dose_def split: option.splits)






section \<open>Properties of the text normalizer\<close>

text \<open>
  C10. Whatever the argument, the text that \<open>normalize_text\<close> returns is made of the
  characters \<open>A..Z\<close>, \<open>0..9\<close> and the space only, neither starts nor ends with a space
  (so with no whitespace at all), and has no two spaces in a row; for an argument that
  is not a string it is the empty text.
\<close>

theorem C10_normalize_text_shape:
  "set (normalize_text x) \<subseteq> set uppers \<union> set digits \<union> {CHR '' ''} \<and>
   \<not> prefix '' '' (normalize_text x) \<and> \<not> suffix '' '' (normalize_text x) \<and>
   \<not> str_in ''  '' (normalize_text x) \<and>
   normalize_text (NonStr obj) = []"
  using normalize_shape[of x] by simp

text \<open>
  C4, as the source has it. Normalizing twice is not normalizing once: the stop words
  are removed before the special characters, so \<open>M,G\<close> becomes \<open>MG\<close>, which a second
  pass removes as a stop word.
\<close>

theorem C4_counterexample:
  "normalize_text (Str (normalize_text (Str ''M,G''))) \<noteq> normalize_text (Str ''M,G'')"
  by code_simp

text \<open>
  C4, amended. A normalized text in which none of the stop words occurs as a whole
  word is a fixed point of the normalizer.
\<close>

theorem C4_normalize_fixed_point:
  assumes "\<forall>w \<in> set stop_words. re_search (word_re w) (normalize_text x) = None"
  shows "normalize_text (Str (normalize_text x)) = normalize_text x"
proof -
  let ?y = "normalize_text x"
  have shape: "set ?y \<subseteq> set uppers \<union> set digits \<union> {CHR '' ''}"
    "\<not> prefix '' '' ?y" "\<not> suffix '' '' ?y" "\<not> sublist ''  '' ?y"
    using normalize_shape[of x] by (simp_all add: str_in_sublist)
  have mem: "\<And>c. c \<in> set ?y \<Longrightarrow> c \<in> set uppers \<union> set digits \<union> {CHR '' ''}"
    using shape(1) by (rule subsetD)
  have ws: "\<forall>c \<in> set ?y. is_space c \<longrightarrow> c = CHR '' ''"
    using mem allowed_chr_space by blast
  have "\<forall>c \<in> set ?y. upper_chr c = c"
    using mem upper_chr_fixed by blast
  then have 1: "upper ?y = ?y" by (rule upper_fixed)
  have 2: "remove_stop_words ?y = ?y"
    unfolding remove_stop_words_def using assms by (rule fold_stop_fixed)
  have "\<forall>c \<in> set ?y. \<not> special_chr c"
    using mem allowed_chr_not_special by blast
  then have "filter (\<lambda>c. \<not> special_chr c) ?y = ?y" by simp
  then have 3: "re_sub (Chr special_chr) [] ?y = ?y"
    by (simp add: re_sub_def sub_from_Chr)
  have 4: "re_sub (Plus is_space) '' '' ?y = ?y"
    unfolding re_sub_def using ws shape(4) by (rule sub_ws_fixed)
  have 5: "strip ?y = ?y"
    using shape(2,3) ws by (rule strip_fixed)
  show ?thesis by (simp add: 1 2 3 4 5)
qed

theorem C4_witness:
  "list_all (\<lambda>w. re_search (word_re w)
                   (normalize_text (Str ''Paracetamol 500 mg x 20 comprimidos'')) = None)
     stop_words \<and>
   normalize_text (Str (normalize_text (Str ''Paracetamol 500 mg x 20 comprimidos''))) =
     normalize_text (Str ''Paracetamol 500 mg x 20 comprimidos'')"
proof -
  have h: "\<forall>w \<in> set stop_words.
      re_search (word_re w) (normalize_text (Str ''Paracetamol 500 mg x 20 comprimidos'')) = None"
    by code_simp
  show ?thesis
    using h C4_normalize_fixed_point [OF h] by (simp add: list_all_iff)
qed

section \<open>Properties of the field extractor\<close>

lemma search_from_match_at:
  "search_from r b s = Some m \<Longrightarrow> \<exists>b' s'. match_at r b' s' = Some m"
  by (induction s arbitrary: b) (auto split: option.splits)

lemma match_at_run:
  "match_at r b s = Some m \<Longrightarrow>
     \<exists>st \<in> set (run r \<lparr>behind = b, ahead = s, groups = Map.empty\<rparr>). m_groups m = groups st"
  by (auto simp: match_at_def split: list.splits)

lemma run_lab_group: "st \<in> set (run REGEX_LAB st0) \<Longrightarrow> groups st 1 \<noteq> None"
  by (auto simp: REGEX_LAB_def split: if_splits)

lemma extract_lab_ok: "\<exists>p. extract_lab t r = Inr p"
proof (cases "re_search REGEX_LAB t")
  case None
  then show ?thesis by (simp add: extract_lab_def)
next
  case (Some m)
  then obtain b' s' where "match_at REGEX_LAB b' s' = Some m"
    unfolding re_search_def using search_from_match_at by blast
  then have "m_groups m 1 \<noteq> None"
    using match_at_run run_lab_group by metis
  with Some show ?thesis by (auto simp: extract_lab_def)
qed

lemma parse_total: "\<exists>r. parse x = Inr r"
proof (cases x)
  case (Str name)
  obtain p where "extract_lab (strip (upper name))
      \<lparr>original = strip (upper name), clean_name = strip (upper name), brand_type = None,
       lab = ''NO IDENTIFICADO'', dose_val = None, dose_unit = None,
       qty_val = None, qty_unit = None\<rparr> = Inr p"
    using extract_lab_ok by blast
  then show ?thesis using Str
    by (auto simp: parse_def Let_def split: prod.splits)
next
  case (NonStr s)
  then show ?thesis by (simp add: parse_def)
qed

lemma parse_empty:
  "parse (Str []) = Inr \<lparr>original = [], clean_name = [], brand_type = None,
     lab = ''NO IDENTIFICADO'', dose_val = None, dose_unit = None,
     qty_val = None, qty_unit = None\<rparr>"
  by code_simp

text \<open>
  C5. \<open>parse\<close> returns a dictionary for every argument: the only operation in it that
  can raise, \<open>.strip()\<close> on group 1 of the laboratory match, always finds the group
  set. For an argument that is not a string, and for the empty string, the
  dictionary has no dose value, dose unit, quantity value or quantity unit, and its
  laboratory is \<open>NO IDENTIFICADO\<close>.
\<close>

theorem C5_parse_never_raises:
  "(\<exists>r. parse x = Inr r) \<and>
   (\<exists>r. parse (NonStr s) = Inr r \<and> dose_val r = None \<and> dose_unit r = None \<and>
        qty_val r = None \<and> qty_unit r = None \<and> lab r = ''NO IDENTIFICADO'') \<and>
   (\<exists>r. parse (Str []) = Inr r \<and> dose_val r = None \<and> dose_unit r = None \<and>
        qty_val r = None \<and> qty_unit r = None \<and> lab r = ''NO IDENTIFICADO'')"
proof (intro conjI)
  show "\<exists>r. parse x = Inr r" by (rule parse_total)
  show "\<exists>r. parse (NonStr s) = Inr r \<and> dose_val r = None \<and> dose_unit r = None \<and>
        qty_val r = None \<and> qty_unit r = None \<and> lab r = ''NO IDENTIFICADO''"
    by (simp add: parse_def)
  show "\<exists>r. parse (Str []) = Inr r \<and> dose_val r = None \<and> dose_unit r = None \<and>
        qty_val r = None \<and> qty_unit r = None \<and> lab r = ''NO IDENTIFICADO''"
    by (simp add: parse_empty)
qed





section \<open>Properties of the data manager\<close>

lemma brand_flags_inv:
  "(g \<longrightarrow> b) \<Longrightarrow> brand_flags bs name (b, g) = (b', g') \<Longrightarrow> (g' \<longrightarrow> b')"
  by (induction bs name "(b, g)" arbitrary: b g rule: brand_flags.induct) (auto split: if_splits)

lemma classify_inv:
  "classify fuzzy db name = Inr (found, b, g) \<Longrightarrow> g \<longrightarrow> b"
  unfolding classify_def Let_def
  by (auto split: option.splits if_splits dest: brand_flags_inv[rotated])

lemma enrich_flags:
  "enrich_compliance fuzzy F db row = Inr out \<Longrightarrow>
     \<exists>found. classify fuzzy db (product_name row) = Inr (found, Is_Bioequivalent out, Is_Generic out)
       \<and> Active_Ingredient out = found"
  unfolding enrich_compliance_def Let_def
  by (auto simp: inv_row.defs enriched.defs split: sum.splits prod.splits)


lemma brand_lookup_find:
  "\<forall>(key, data) \<in> set db. key \<noteq> [] \<Longrightarrow>
     brand_lookup db name None =
       map_option fst (find (\<lambda>(key, data). list_ex (\<lambda>brand. str_in brand name) (brands data)) db)"
  by (induction db) (auto simp: truthy_def Let_def)

lemma find_in_set: "find P xs = Some x \<Longrightarrow> x \<in> set xs \<and> P x"
  by (induction xs) (auto split: if_splits)

lemma calculate_ppum_total: "\<exists>p. calculate_ppum F row = Inr p"
  by (simp add: calculate_ppum_def ppum_try_def split: option.splits)

lemma classify_found:
  assumes "find_best_match fuzzy db name = Some key" "key \<noteq> []" "map_of db key = Some data"
  shows "\<exists>b g. classify fuzzy db name = Inr (active_ingredient data, b, g)"
proof -
  from assms have "\<exists>p. classify fuzzy db name = Inr (active_ingredient data, p)"
    by (simp add: classify_def Let_def)
  then show ?thesis by (metis surj_pair)
qed


text \<open>
  C6, as the source has it. With \<open>rapidfuzz\<close> available the reverse lookup is not made:
  no key occurs in \<open>PANADOL\<close>, the brand \<open>PANADOL\<close> of the registry does, no key scores
  above 85, and the ingredient stays \<open>DESCONOCIDO\<close>.
\<close>

theorem C6_counterexample:
  "key_lookup load_mock_isp_db ''PANADOL'' = None \<and>
   str_in ''PANADOL'' ''PANADOL'' \<and>
   classify (Some rapidfuzz) load_mock_isp_db ''PANADOL'' = Inr (''DESCONOCIDO'', False, False)"
  by code_simp



text \<open>
  C6, amended. Without \<open>rapidfuzz\<close> (the fallback branch), when no key of the registry
  occurs in the name of the product and some brand of the registry does, the active
  ingredient of the enriched row is that of the first entry of the registry with such
  a brand, and not \<open>DESCONOCIDO\<close>. The registry has non-empty, distinct keys and no
  ingredient called \<open>DESCONOCIDO\<close>, as the one of the source.
\<close>

theorem C6_reverse_lookup_without_rapidfuzz:
  assumes keys: "\<forall>(key, data) \<in> set db. key \<noteq> []"
    and dist: "distinct (map fst db)"
    and known: "\<forall>(key, data) \<in> set db. active_ingredient data \<noteq> ''DESCONOCIDO''"
    and nokey: "key_lookup db (product_name row) = None"
    and brand: "find (\<lambda>(key, data). list_ex (\<lambda>brand. str_in brand (product_name row)) (brands data)) db
                  = Some (key, data)"
  shows "\<exists>out. enrich_compliance None F db row = Inr out \<and>
           Active_Ingredient out = active_ingredient data \<and>
           Active_Ingredient out \<noteq> ''DESCONOCIDO''"
proof -
  let ?name = "product_name row"
  have "brand_lookup db ?name None = Some key"
    using brand_lookup_find[OF keys, of ?name] brand by simp
  then have best: "find_best_match None db ?name = Some key"
    using nokey by (simp add: find_best_match_def truthy_def)
  have mem: "(key, data) \<in> set db" using find_in_set[OF brand] by simp
  then have ne: "key \<noteq> []" using keys by auto
  have look: "map_of db key = Some data" using mem dist by simp
  obtain b g where cl: "classify None db ?name = Inr (active_ingredient data, b, g)"
    using classify_found[OF best ne look] by blast
  obtain p where pp: "calculate_ppum F row = Inr p"
    using calculate_ppum_total by blast
  have "active_ingredient data \<noteq> ''DESCONOCIDO''" using mem known by auto
  then show ?thesis using cl pp
    by (simp add: enrich_compliance_def inv_row.defs enriched.defs)
qed


theorem C6_witness:
  "list_all (\<lambda>(key, data). key \<noteq> []) load_mock_isp_db \<and>
   distinct (map fst load_mock_isp_db) \<and>
   list_all (\<lambda>(key, data). active_ingredient data \<noteq> ''DESCONOCIDO'') load_mock_isp_db \<and>
   key_lookup load_mock_isp_db ''PANADOL'' = None \<and>
   (\<exists>out. enrich_compliance None
       \<lparr>float_of_str = (\<lambda>s. None), fdiv = (\<lambda>x y. x), fround = (\<lambda>x n. x),
        fpositive = (\<lambda>x. False)\<rparr>
       load_mock_isp_db
       \<lparr>original = ''PANADOL 500 MG X 16 COMP'', clean_name = ''PANADOL'',
        brand_type = None, lab = ''NO IDENTIFICADO'', dose_val = Some ''500'',
        dose_unit = Some ''MG'', qty_val = Some ''16'', qty_unit = Some ''COMP'',
        Producto = Str ''PANADOL 500 MG X 16 COMP'', Stock = 5, Precio_Venta = Str ''2990''\<rparr>
       = Inr (out :: (py_arg, unit) enriched) \<and>
     Active_Ingredient out = ''PARACETAMOL'' \<and> Active_Ingredient out \<noteq> ''DESCONOCIDO'')"
proof -
  let ?F = "\<lparr>float_of_str = (\<lambda>s. None), fdiv = (\<lambda>x y. x), fround = (\<lambda>x n. x),
             fpositive = (\<lambda>x. False)\<rparr> :: unit float_ops"
  let ?row = "\<lparr>original = ''PANADOL 500 MG X 16 COMP'', clean_name = ''PANADOL'',
        brand_type = None, lab = ''NO IDENTIFICADO'', dose_val = Some ''500'',
        dose_unit = Some ''MG'', qty_val = Some ''16'', qty_unit = Some ''COMP'',
        Producto = Str ''PANADOL 500 MG X 16 COMP'', Stock = 5, Precio_Venta = Str ''2990''\<rparr>"
  let ?data = "\<lparr>generics = [''PARACETAMOL 500 MG''], brands = [''PANADOL'', ''KITADOL''],
                active_ingredient = ''PARACETAMOL''\<rparr>"
  have n: "product_name ?row = ''PANADOL''" by code_simp
  have 1: "\<forall>(key, data) \<in> set load_mock_isp_db. key \<noteq> []" by code_simp
  have 2: "distinct (map fst load_mock_isp_db)" by code_simp
  have 3: "\<forall>(key, data) \<in> set load_mock_isp_db. active_ingredient data \<noteq> ''DESCONOCIDO''"
    by code_simp
  have 4: "key_lookup load_mock_isp_db (product_name ?row) = None" by code_simp
  have 5: "find (\<lambda>(key, data). list_ex (\<lambda>brand. str_in brand (product_name ?row)) (brands data))
             load_mock_isp_db = Some (''PARACETAMOL 500 MG'', ?data)"
    by code_simp
  show ?thesis
    using 1 2 3 4 n C6_reverse_lookup_without_rapidfuzz [OF 1 2 3 4 5, of ?F]
    by (simp add: list_all_iff)
qed

text \<open>
  C7. In every enriched row, generic implies bioequivalent: the generic path sets both
  flags, and a brand that occurs in the name sets bioequivalent and clears generic.
\<close>

theorem C7_generic_implies_bioequivalent:
  "enrich_compliance fuzzy F db row = Inr out \<Longrightarrow> Is_Generic out \<longrightarrow> Is_Bioequivalent out"
  using enrich_flags classify_inv by blast


theorem C7_witness:
  "enrich_compliance (Some rapidfuzz)
     \<lparr>float_of_str = (\<lambda>s. None), fdiv = (\<lambda>x y. x), fround = (\<lambda>x n. x), fpositive = (\<lambda>x. False)\<rparr>
     load_mock_isp_db
     \<lparr>original = ''PARACETAMOL 500 MG X 16 COMP'', clean_name = ''PARACETAMOL'',
      brand_type = None, lab = ''NO IDENTIFICADO'', dose_val = Some ''500'',
      dose_unit = Some ''MG'', qty_val = Some ''16'', qty_unit = Some ''COMP'',
      Producto = Str ''PARACETAMOL 500 MG X 16 COMP'', Stock = 12, Precio_Venta = Str ''990''\<rparr> =
   Inr \<lparr>original = ''PARACETAMOL 500 MG X 16 COMP'', clean_name = ''PARACETAMOL'',
      brand_type = None, lab = ''NO IDENTIFICADO'', dose_val = Some ''500'',
      dose_unit = Some ''MG'', qty_val = Some ''16'', qty_unit = Some ''COMP'',
      Producto = Str ''PARACETAMOL 500 MG X 16 COMP'', Stock = 12, Precio_Venta = Str ''990'',
      Active_Ingredient = ''PARACETAMOL'', Is_Bioequivalent = True, Is_Generic = True,
      Calculated_PPUM = PyInt 0 :: unit pynum\<rparr> \<and>
   Is_Generic \<lparr>original = ''PARACETAMOL 500 MG X 16 COMP'', clean_name = ''PARACETAMOL'',
      brand_type = None, lab = ''NO IDENTIFICADO'', dose_val = Some ''500'',
      dose_unit = Some ''MG'', qty_val = Some ''16'', qty_unit = Some ''COMP'',
      Producto = Str ''PARACETAMOL 500 MG X 16 COMP'', Stock = 12, Precio_Venta = Str ''990'',
      Active_Ingredient = ''PARACETAMOL'', Is_Bioequivalent = True, Is_Generic = True,
      Calculated_PPUM = PyInt 0 :: unit pynum\<rparr> \<and>
   Is_Bioequivalent \<lparr>original = ''PARACETAMOL 500 MG X 16 COMP'', clean_name = ''PARACETAMOL'',
      brand_type = None, lab = ''NO IDENTIFICADO'', dose_val = Some ''500'',
      dose_unit = Some ''MG'', qty_val = Some ''16'', qty_unit = Some ''COMP'',
      Producto = Str ''PARACETAMOL 500 MG X 16 COMP'', Stock = 12, Precio_Venta = Str ''990'',
      Active_Ingredient = ''PARACETAMOL'', Is_Bioequivalent = True, Is_Generic = True,
      Calculated_PPUM = PyInt 0 :: unit pynum\<rparr>"
proof -
  let ?F = "\<lparr>float_of_str = (\<lambda>s. None), fdiv = (\<lambda>x y. x), fround = (\<lambda>x n. x),
             fpositive = (\<lambda>x. False)\<rparr> :: unit float_ops"
  let ?row = "\<lparr>original = ''PARACETAMOL 500 MG X 16 COMP'', clean_name = ''PARACETAMOL'',
      brand_type = None, lab = ''NO IDENTIFICADO'', dose_val = Some ''500'',
      dose_unit = Some ''MG'', qty_val = Some ''16'', qty_unit = Some ''COMP'',
      Producto = Str ''PARACETAMOL 500 MG X 16 COMP'', Stock = 12, Precio_Venta = Str ''990''\<rparr>"
  let ?out = "\<lparr>original = ''PARACETAMOL 500 MG X 16 COMP'', clean_name = ''PARACETAMOL'',
      brand_type = None, lab = ''NO IDENTIFICADO'', dose_val = Some ''500'',
      dose_unit = Some ''MG'', qty_val = Some ''16'', qty_unit = Some ''COMP'',
      Producto = Str ''PARACETAMOL 500 MG X 16 COMP'', Stock = 12, Precio_Venta = Str ''990'',
      Active_Ingredient = ''PARACETAMOL'', Is_Bioequivalent = True, Is_Generic = True,
      Calculated_PPUM = PyInt 0 :: unit pynum\<rparr>"
  have e: "enrich_compliance (Some rapidfuzz) ?F load_mock_isp_db ?row = Inr ?out"
    by code_simp
  have g: "Is_Generic ?out" by simp
  show ?thesis using e g C7_generic_implies_bioequivalent [OF e] by simp
qed


section \<open>Properties of the search engine\<close>

lemma Rank_add_rank: "Rank (add_rank q r) = calculate_rank q r"
  by (simp add: add_rank_def enriched.defs ranked.defs)

lemma truncate_add_rank: "enriched.truncate (add_rank q r) = r"
  by (simp add: add_rank_def enriched.defs ranked.defs)

lemma fields_add_rank:
  "clean_name (add_rank q r) = clean_name r" "Is_Generic (add_rank q r) = Is_Generic r"
  "Is_Bioequivalent (add_rank q r) = Is_Bioequivalent r" "Precio_Venta (add_rank q r) = Precio_Venta r"
  by (simp_all add: add_rank_def enriched.defs ranked.defs)

lemma rank_rule:
  "Rank (add_rank q r) =
     (if Is_Generic (add_rank q r) \<and> Is_Bioequivalent (add_rank q r) then 1
      else if Is_Bioequivalent (add_rank q r) then 2
      else if str_in q (clean_name (add_rank q r)) then 3 else 4)"
  by (simp add: Rank_add_rank fields_add_rank calculate_rank_def)

lemma sorted_fst: "sorted (map f xs) \<Longrightarrow> sorted (map (\<lambda>x. fst (f x)) xs)"
  for f :: "'a \<Rightarrow> nat \<times> int"
  by (induction xs) (auto simp: less_eq_prod_def)








text \<open>
  C1. Each candidate gets the rank of the first rule that applies to it (generic and
  bioequivalent 1, bioequivalent 2, the query in its clean name 3, else 4); the list
  returned holds the candidates given, ordered by rank and then by price, so that the
  ranks never decrease along it, whatever the prices.
\<close>

theorem C1_rank_then_price:
  "map Rank (rank_and_sort q cands) =
     map (\<lambda>r. if Is_Generic r \<and> Is_Bioequivalent r then 1
               else if Is_Bioequivalent r then 2
               else if str_in q (clean_name r) then 3
               else 4) (rank_and_sort q cands) \<and>
   mset (map enriched.truncate (rank_and_sort q cands)) = mset cands \<and>
   sorted (map (\<lambda>r. (Rank r, Precio_Venta r)) (rank_and_sort q cands)) \<and>
   sorted (map Rank (rank_and_sort q cands))"
proof (intro conjI)
  let ?out = "rank_and_sort q cands"
  have set_out: "set ?out = add_rank q ` set cands"
    by (simp add: rank_and_sort_def)
  show "map Rank ?out =
     map (\<lambda>r. if Is_Generic r \<and> Is_Bioequivalent r then 1
               else if Is_Bioequivalent r then 2
               else if str_in q (clean_name r) then 3
               else 4) ?out"
  proof (intro map_cong refl)
    fix r assume "r \<in> set ?out"
    then obtain x where "r = add_rank q x" using set_out by auto
    then show "Rank r =
       (if Is_Generic r \<and> Is_Bioequivalent r then 1
        else if Is_Bioequivalent r then 2
        else if str_in q (clean_name r) then 3 else 4)"
      using rank_rule[of q x] by simp
  qed
  have "mset ?out = mset (map (add_rank q) cands)"
    by (simp add: rank_and_sort_def)
  then have "mset (map enriched.truncate ?out) = mset (map enriched.truncate (map (add_rank q) cands))"
    by (metis mset_map)
  then show "mset (map enriched.truncate ?out) = mset cands"
    by (simp add: comp_def truncate_add_rank)
  show s: "sorted (map (\<lambda>r. (Rank r, Precio_Venta r)) ?out)"
    by (simp add: rank_and_sort_def)
  show "sorted (map Rank ?out)"
    using sorted_fst[OF s] by simp
qed

text \<open>The scenario of the specification: the generic first, the cheapest last.\<close>

lemma rank_scenario:
  "map Precio_Venta (rank_and_sort ''XYZ''
     [\<lparr>original = ''C'', clean_name = ''XYZ FORTE'', brand_type = None, lab = ''L'',
       dose_val = None, dose_unit = None, qty_val = None, qty_unit = None,
       Producto = Str ''C'', Stock = 1, Precio_Venta = 500,
       Active_Ingredient = ''I'', Is_Bioequivalent = False, Is_Generic = False,
       Calculated_PPUM = PyInt 0 :: unit pynum\<rparr>,
      \<lparr>original = ''B'', clean_name = ''MARCA'', brand_type = None, lab = ''L'',
       dose_val = None, dose_unit = None, qty_val = None, qty_unit = None,
       Producto = Str ''B'', Stock = 1, Precio_Venta = 900,
       Active_Ingredient = ''I'', Is_Bioequivalent = True, Is_Generic = False,
       Calculated_PPUM = PyInt 0\<rparr>,
      \<lparr>original = ''A'', clean_name = ''GENERICO'', brand_type = None, lab = ''L'',
       dose_val = None, dose_unit = None, qty_val = None, qty_unit = None,
       Producto = Str ''A'', Stock = 1, Precio_Venta = 1000,
       Active_Ingredient = ''I'', Is_Bioequivalent = True, Is_Generic = True,
       Calculated_PPUM = PyInt 0\<rparr>]) = [1000, 900, 500]"
  by code_simp







end
